theory Spec2Isabelle
  imports Complex_Main
begin

section \<open>Persisted store (internal/storage/storage.go)\<close>

text \<open>
  Instants are whole seconds since the epoch. The reading of an instant on a wall clock
  is again a number of seconds: the instant itself for a clock set to UTC, the instant
  plus the offset of the zone for a local clock. SQL \<open>CURRENT_TIMESTAMP\<close> and
  \<open>DATE\<close> work on the UTC reading; \<open>time.Now()\<close> is a value of the local zone of
  the process.
  Go's \<open>int\<close> and \<open>int64\<close> values are HOL integers; where a sum or product of the
  source can leave the 64-bit range the wrap-around is written out.
\<close>

type_synonym time = int

definition hour :: int where
  "hour = 3600"

definition day :: int where
  "day = 86400"

definition date_of :: "time \<Rightarrow> int" where
  "date_of t = t div day"

text \<open>
  The Go structs \<open>Profile\<close>, \<open>ConnectionRequest\<close> and \<open>Message\<close>; the last two are
  also the rows of their tables. Three structs share field names, so each field carries
  the initials of its struct.
\<close>

record Profile =
  p_ID :: int
  p_ProfileURL :: string
  p_Name :: string
  p_JobTitle :: string
  p_Company :: string
  p_Location :: string
  p_Keywords :: string
  p_DiscoveredAt :: time

record ConnectionRequest =
  cr_ID :: int
  cr_ProfileID :: int
  cr_ProfileURL :: string
  cr_SentAt :: time
  cr_Note :: string
  cr_Status :: string
  cr_AcceptedAt :: "time option"

record Message =
  m_ID :: int
  m_ProfileID :: int
  m_ProfileURL :: string
  m_Content :: string
  m_SentAt :: time
  m_Status :: string

text \<open>A row of the table \<open>activity_log\<close>.\<close>

record Activity =
  action_type :: string
  target_url :: string
  outcome :: string
  error_message :: string
  created_at :: time

record DailyStats =
  ConnectionsSent :: int
  MessagesSent :: int
  SearchesPerformed :: int

text \<open>
  The state the services work on: the three tables the phases write, the current
  instant \<open>clock\<close>, the offset \<open>zone\<close> of the local zone of the process (seconds
  east of UTC) and the list of the URLs handed to \<open>browser.Navigate\<close>, oldest first.
  Rows are kept in insertion order; no statement of the program deletes a row, so the
  next AUTOINCREMENT id is the row count plus one. Every statement whose result the
  source reads takes the error the engine answers it with (\<open>None\<close> when the statement
  is executed; a failed statement changes no row and delivers no value). The one
  statement taken to be executed always is the insert of \<open>LogActivity\<close>, whose error
  the source discards at every call.
\<close>

record world =
  connection_requests :: "ConnectionRequest list"
  messages :: "Message list"
  activity_log :: "Activity list"
  clock :: time
  zone :: int
  navigated :: "string list"

text \<open>A Go \<open>error\<close>: \<open>None\<close> is \<open>nil\<close>, \<open>Some msg\<close> an error whose \<open>Error()\<close> is \<open>msg\<close>.\<close>

type_synonym go_error = "string option"

definition SaveConnectionRequest ::
  "go_error \<Rightarrow> ConnectionRequest \<Rightarrow> world \<Rightarrow> go_error \<times> world" where
  "SaveConnectionRequest fails req w =
     (if fails \<noteq> None then (fails, w)
      else (None, w\<lparr>connection_requests := connection_requests w @
              [\<lparr>cr_ID = int (length (connection_requests w)) + 1,
                cr_ProfileID = cr_ProfileID req,
                cr_ProfileURL = cr_ProfileURL req,
                cr_SentAt = clock w,
                cr_Note = cr_Note req,
                cr_Status = cr_Status req,
                cr_AcceptedAt = None\<rparr>]\<rparr>))"


definition IsConnectionSent :: "string \<Rightarrow> world \<Rightarrow> bool" where
  "IsConnectionSent profileURL w =
     (0 < length (filter (\<lambda>r. cr_ProfileURL r = profileURL) (connection_requests w)))"


text \<open>
  The errors of the four count queries of \<open>GetTodayStats\<close> and \<open>GetHourlyStats\<close>.
  Both functions call \<open>QueryRow(...).Scan(&field)\<close> and drop the error, so a query
  that fails leaves the field at the zero of a fresh \<open>DailyStats\<close>.
\<close>

record stats_env =
  today_connections_err :: go_error
  today_messages_err :: go_error
  hourly_connections_err :: go_error
  hourly_messages_err :: go_error

text \<open>
  \<open>today\<close> is the day \<open>time.Now().Format("2006-01-02")\<close> prints, the day of the local
  reading of the clock; \<open>DATE(sent_at)\<close> is the day of the stored UTC reading.
\<close>

definition GetTodayStats :: "stats_env \<Rightarrow> world \<Rightarrow> DailyStats" where
  "GetTodayStats q w =
     (let today = date_of (clock w + zone w) in
      \<lparr>ConnectionsSent =
         (if today_connections_err q \<noteq> None then 0
          else int (length (filter (\<lambda>r. date_of (cr_SentAt r) = today)
                             (connection_requests w)))),
       MessagesSent =
         (if today_messages_err q \<noteq> None then 0
          else int (length (filter (\<lambda>m. date_of (m_SentAt m) = today) (messages w)))),
       SearchesPerformed = 0\<rparr>)"

text \<open>
  \<open>hourAgo\<close> is a \<open>time.Time\<close> of the local zone. The database driver (not part of
  the repository) hands such an argument to the engine as the text of its reading in
  its own zone, and \<open>sent_at >= ?\<close> orders the stored text, a UTC reading, against it:
  the comparison is between the two readings, taken to the second.
\<close>

definition GetHourlyStats :: "stats_env \<Rightarrow> world \<Rightarrow> DailyStats" where
  "GetHourlyStats q w =
     (let hourAgo = clock w - hour;
          reading = hourAgo + zone w in
      \<lparr>ConnectionsSent =
         (if hourly_connections_err q \<noteq> None then 0
          else int (length (filter (\<lambda>r. reading \<le> cr_SentAt r) (connection_requests w)))),
       MessagesSent =
         (if hourly_messages_err q \<noteq> None then 0
          else int (length (filter (\<lambda>m. reading \<le> m_SentAt m) (messages w)))),
       SearchesPerformed = 0\<rparr>)"

definition LogActivity :: "string \<Rightarrow> string \<Rightarrow> string \<Rightarrow> string \<Rightarrow> world \<Rightarrow> world" where
  "LogActivity actionType targetURL outcome' errorMessage w =
     w\<lparr>activity_log := activity_log w @
          [\<lparr>action_type = actionType, target_url = targetURL, outcome = outcome',
            error_message = errorMessage, created_at = clock w\<rparr>]\<rparr>"

definition UpdateConnectionStatus :: "string \<Rightarrow> string \<Rightarrow> world \<Rightarrow> world" where
  "UpdateConnectionStatus profileURL status w =
     w\<lparr>connection_requests :=
          map (\<lambda>r. if cr_ProfileURL r = profileURL
                    then r\<lparr>cr_Status := status,
                           cr_AcceptedAt :=
                             (if status = ''accepted'' then Some (clock w)
                              else cr_AcceptedAt r)\<rparr>
                    else r)
              (connection_requests w)\<rparr>"

section \<open>Configuration (internal/config/config.go)\<close>

text \<open>
  \<open>Config\<close> with its nested structs flattened: the fields the functions below read,
  each named by the last steps of its path (\<open>Browser.Viewport.Width\<close> is
  \<open>ViewportWidth\<close>, \<open>RateLimits.Connections\<close> is \<open>Connections\<close>,
  \<open>Scheduling.ActiveHours.Start\<close> is \<open>ActiveHoursStart\<close>). The two fields of
  \<open>DelayConfig\<close> are \<open>Min\<close> and \<open>Max\<close> in the source.
\<close>

record RateLimit =
  PerHour :: int
  PerDay :: int

record DelayConfig =
  Min_ms :: int
  Max_ms :: int

record Config =
  ViewportWidth :: int
  ViewportHeight :: int
  UserAgents :: "string list"
  ActionDelay :: DelayConfig
  ScrollDelay :: DelayConfig
  TypingDelay :: DelayConfig
  ThinkTime :: DelayConfig
  Connections :: RateLimit
  Messages :: RateLimit
  Searches :: RateLimit
  SendNote :: bool
  MessagingEnabled :: bool
  DelayAfterConnectionHours :: int
  ActiveHoursStart :: int
  ActiveHoursEnd :: int
  ActiveDays :: "string list"
  DatabasePath :: string

section \<open>Quota checks (internal/connect, internal/message)\<close>

definition canSendConnection :: "Config \<Rightarrow> stats_env \<Rightarrow> world \<Rightarrow> bool" where
  "canSendConnection cfg q w =
     (let dailyStats = GetTodayStats q w in
      if PerDay (Connections cfg) \<le> ConnectionsSent dailyStats then False
      else let hourlyStats = GetHourlyStats q w in
           if PerHour (Connections cfg) \<le> ConnectionsSent hourlyStats then False
           else True)"

definition canSendMessage :: "Config \<Rightarrow> stats_env \<Rightarrow> world \<Rightarrow> bool" where
  "canSendMessage cfg q w =
     (let dailyStats = GetTodayStats q w in
      if PerDay (Messages cfg) \<le> MessagesSent dailyStats then False
      else let hourlyStats = GetHourlyStats q w in
           if PerHour (Messages cfg) \<le> MessagesSent hourlyStats then False
           else True)"

section \<open>Connection phase (internal/connect)\<close>

text \<open>
  What the world outside the service does during one pass of the loop of
  \<open>SendConnectionRequests\<close>: whether the context is cancelled when the pass starts, the
  errors of the count queries of the quota check, the
  error each call to a collaborator returns (\<open>None\<close> for success), and the seconds that
  pass during the browser interaction and during the pacing sleeps after a send.
  \<open>findConnectButton\<close>, \<open>addConnectionNote\<close> and \<open>clickSendButton\<close> only look up and
  drive page elements, so their results are read from here too.
\<close>

record connect_env =
  ctx_done :: bool
  stats :: stats_env
  IsConnectionSent_err :: go_error
  Navigate_err :: go_error
  findConnectButton_err :: go_error
  HumanClick_err :: go_error
  addConnectionNote_err :: go_error
  clickSendButton_err :: go_error
  SaveConnectionRequest_err :: go_error
  interaction_seconds :: nat
  action_pause :: nat
  think_pause :: nat

text \<open>\<open>fmt.Errorf("prefix: %w", err)\<close>.\<close>

definition Errorf :: "string \<Rightarrow> string \<Rightarrow> go_error" where
  "Errorf prefix cause = Some (prefix @ '': '' @ cause)"

definition sendConnectionRequest ::
  "Config \<Rightarrow> connect_env \<Rightarrow> Profile \<Rightarrow> world \<Rightarrow> go_error \<times> world" where
  "sendConnectionRequest cfg e profile w0 =
     (let w1 = w0\<lparr>navigated := navigated w0 @ [p_ProfileURL profile],
                  clock := clock w0 + int (interaction_seconds e)\<rparr> in
      case Navigate_err e of
        Some err \<Rightarrow> (Errorf ''failed to navigate to profile'' err, w1)
      | None \<Rightarrow>
      (case findConnectButton_err e of
        Some err \<Rightarrow> (Errorf ''connect button not found'' err, w1)
      | None \<Rightarrow>
      (case HumanClick_err e of
        Some err \<Rightarrow> (Errorf ''failed to click connect'' err, w1)
      | None \<Rightarrow>
      (case (if SendNote cfg
             then (case addConnectionNote_err e of
                     Some _ \<Rightarrow> clickSendButton_err e
                   | None \<Rightarrow> None)
             else clickSendButton_err e) of
        Some err \<Rightarrow> (Errorf ''failed to send connection'' err, w1)
      | None \<Rightarrow>
      (let connectionReq =
             \<lparr>cr_ID = 0, cr_ProfileID = p_ID profile,
              cr_ProfileURL = p_ProfileURL profile, cr_SentAt = clock w1,
              cr_Note = [], cr_Status = ''pending'', cr_AcceptedAt = None\<rparr> in
       case SaveConnectionRequest (SaveConnectionRequest_err e) connectionReq w1 of
         (Some err, w2) \<Rightarrow> (Errorf ''failed to save connection request'' err, w2)
       | (None, w2) \<Rightarrow>
           (None, LogActivity ''connection_request'' (p_ProfileURL profile)
                    ''success'' [] w2))))))"

text \<open>How a pass through a loop body ends: \<open>continue\<close> (or falling off its end), \<open>break\<close>, \<open>return\<close>.\<close>

datatype flow = Continue | Break | Return

text \<open>One pass of the \<open>for\<close> loop of \<open>SendConnectionRequests\<close>, on the counter \<open>sent\<close>.\<close>

definition connection_pass ::
  "Config \<Rightarrow> connect_env \<Rightarrow> Profile \<Rightarrow> int \<Rightarrow> world \<Rightarrow> flow \<times> int \<times> world" where
  "connection_pass cfg e profile sent w =
     (if ctx_done e then (Return, sent, w)
      else if \<not> canSendConnection cfg (stats e) w then (Break, sent, w)
      else if IsConnectionSent_err e \<noteq> None then (Continue, sent, w)
      else if IsConnectionSent (p_ProfileURL profile) w then (Continue, sent, w)
      else (case sendConnectionRequest cfg e profile w of
              (Some err, w1) \<Rightarrow>
                (Continue, sent,
                 LogActivity ''connection_request'' (p_ProfileURL profile) ''failed'' err w1)
            | (None, w1) \<Rightarrow>
                (let sent1 = sent + 1;
                     w2 = w1\<lparr>clock := clock w1 + int (action_pause e)\<rparr>;
                     w3 = (if sent1 mod 5 = 0
                           then w2\<lparr>clock := clock w2 + int (think_pause e)\<rparr> else w2)
                 in (Continue, sent1, w3))))"

text \<open>
  The loop over \<open>profiles\<close>; \<open>env i\<close> is the outside world during pass \<open>i\<close>. The result
  is the pair the source returns, with the state left behind.
\<close>

fun connection_loop ::
  "Config \<Rightarrow> (nat \<Rightarrow> connect_env) \<Rightarrow> nat \<Rightarrow> int \<Rightarrow> world \<Rightarrow> Profile list
     \<Rightarrow> int \<times> go_error \<times> world" where
  "connection_loop cfg env i sent w [] = (sent, None, w)"
| "connection_loop cfg env i sent w (profile # rest) =
     (case connection_pass cfg (env i) profile sent w of
        (Return, sent1, w1) \<Rightarrow> (sent1, Some ''context canceled'', w1)
      | (Break, sent1, w1) \<Rightarrow> (sent1, None, w1)
      | (Continue, sent1, w1) \<Rightarrow> connection_loop cfg env (Suc i) sent1 w1 rest)"

definition SendConnectionRequests ::
  "Config \<Rightarrow> (nat \<Rightarrow> connect_env) \<Rightarrow> Profile list \<Rightarrow> world \<Rightarrow> int \<times> go_error \<times> world" where
  "SendConnectionRequests cfg env profiles w = connection_loop cfg env 0 0 w profiles"

section \<open>Message phase (internal/message)\<close>












section \<open>Active window (internal/scheduler/scheduler.go)\<close>




definition Date_at :: "int \<Rightarrow> int \<Rightarrow> time" where
  "Date_at d h = d * day + h * hour"








section \<open>Pacing delays (internal/stealth/stealth.go)\<close>

text \<open>
  Go's \<open>int\<close> is 64 bits wide here: \<open>wrap64\<close> is the value a sum or product is left
  with. \<open>rand.Intn n\<close> panics unless \<open>0 < n\<close> and otherwise returns a number of
  \<open>[0, n)\<close>; \<open>r\<close> is what the generator holds, and every number of the range is
  returned for some \<open>r\<close>.
\<close>

definition wrap64 :: "int \<Rightarrow> int" where
  "wrap64 x = (x + 2 ^ 63) mod 2 ^ 64 - 2 ^ 63"

datatype go_panic = InvalidArgumentToIntn

definition Intn :: "int \<Rightarrow> nat \<Rightarrow> go_panic + int" where
  "Intn n r = (if n \<le> 0 then Inl InvalidArgumentToIntn else Inr (int r mod n))"

text \<open>The \<open>switch delayType\<close> of \<open>RandomDelay\<close>: the band \<open>(min, max)\<close> in milliseconds.\<close>

definition delay_band :: "Config \<Rightarrow> string \<Rightarrow> int \<times> int" where
  "delay_band cfg delayType =
     (if delayType = ''action'' then (Min_ms (ActionDelay cfg), Max_ms (ActionDelay cfg))
      else if delayType = ''scroll'' then (Min_ms (ScrollDelay cfg), Max_ms (ScrollDelay cfg))
      else if delayType = ''typing'' then (Min_ms (TypingDelay cfg), Max_ms (TypingDelay cfg))
      else if delayType = ''think'' then (Min_ms (ThinkTime cfg), Max_ms (ThinkTime cfg))
      else (1000, 3000))"

text \<open>
  \<open>RandomDelay\<close> returns nothing; the model returns the \<open>time.Duration\<close> (nanoseconds)
  it hands to \<open>time.Sleep\<close>, which returns at once for a duration that is not positive.
\<close>

definition Millisecond :: int where
  "Millisecond = 1000000"

definition RandomDelay :: "Config \<Rightarrow> string \<Rightarrow> nat \<Rightarrow> go_panic + int" where
  "RandomDelay cfg delayType r =
     (case delay_band cfg delayType of
        (min', max') \<Rightarrow>
          (case Intn (wrap64 (wrap64 (max' - min') + 1)) r of
             Inl p \<Rightarrow> Inl p
           | Inr k \<Rightarrow>
               (let delay = wrap64 (min' + k) in Inr (wrap64 (delay * Millisecond)))))"

section \<open>Startup validation (internal/config/config.go)\<close>

definition Validate :: "Config \<Rightarrow> go_error" where
  "Validate c =
     (if ViewportWidth c \<le> 0 \<or> ViewportHeight c \<le> 0
      then Some ''invalid viewport dimensions''
      else if length (UserAgents c) = 0
      then Some ''at least one user agent must be specified''
      else if PerDay (Connections c) \<le> 0
      then Some ''connections per day must be positive''
      else if DatabasePath c = []
      then Some ''database path must be specified''
      else None)"

text \<open>
  What \<open>Load\<close> reads: the errors of reading and of parsing \<open>config.yaml\<close>, the parsed
  configuration, and the environment variables it looks at that reach a field of the
  model (an empty string is an unset variable; for the two caps, the number
  \<open>strconv.Atoi\<close> parsed, \<open>None\<close> when the variable is unset or is not a number).
\<close>

record load_input =
  ReadFile_err :: go_error
  Unmarshal_err :: go_error
  parsed :: Config
  LINKEDIN_EMAIL :: string
  LINKEDIN_PASSWORD :: string
  DB_PATH :: string
  MAX_CONNECTIONS_PER_DAY :: "int option"
  MAX_MESSAGES_PER_DAY :: "int option"

definition Load :: "load_input \<Rightarrow> string + Config" where
  "Load inp =
     (case ReadFile_err inp of
        Some err \<Rightarrow> Inl (''failed to read config.yaml: '' @ err)
      | None \<Rightarrow>
      (case Unmarshal_err inp of
        Some err \<Rightarrow> Inl (''failed to parse config.yaml: '' @ err)
      | None \<Rightarrow>
      (if LINKEDIN_EMAIL inp = [] \<or> LINKEDIN_PASSWORD inp = []
       then Inl ''LINKEDIN_EMAIL and LINKEDIN_PASSWORD must be set''
       else
         (let cfg0 = parsed inp;
              cfg1 = (if DB_PATH inp \<noteq> [] then cfg0\<lparr>DatabasePath := DB_PATH inp\<rparr>
                      else cfg0);
              cfg2 = (case MAX_CONNECTIONS_PER_DAY inp of
                        Some n \<Rightarrow> cfg1\<lparr>Connections := (Connections cfg1)\<lparr>PerDay := n\<rparr>\<rparr>
                      | None \<Rightarrow> cfg1);
              cfg3 = (case MAX_MESSAGES_PER_DAY inp of
                        Some n \<Rightarrow> cfg2\<lparr>Messages := (Messages cfg2)\<lparr>PerDay := n\<rparr>\<rparr>
                      | None \<Rightarrow> cfg2)
          in case Validate cfg3 of
               Some err \<Rightarrow> Inl (''invalid configuration: '' @ err)
             | None \<Rightarrow> Inr cfg3))))"

section \<open>The counts the quota is stated over\<close>

text \<open>
  The number of persisted records of a kind whose instant lies in the last hour, and
  the number whose instant lies on the current calendar day, the day of the local
  clock of the process.
\<close>

definition connections_last_hour :: "world \<Rightarrow> nat" where
  "connections_last_hour w =
     length (filter (\<lambda>r. clock w - hour \<le> cr_SentAt r) (connection_requests w))"

definition connections_today :: "world \<Rightarrow> nat" where
  "connections_today w =
     length (filter (\<lambda>r. date_of (cr_SentAt r + zone w) = date_of (clock w + zone w))
               (connection_requests w))"

definition messages_last_hour :: "world \<Rightarrow> nat" where
  "messages_last_hour w =
     length (filter (\<lambda>m. clock w - hour \<le> m_SentAt m) (messages w))"

definition messages_today :: "world \<Rightarrow> nat" where
  "messages_today w =
     length (filter (\<lambda>m. date_of (m_SentAt m + zone w) = date_of (clock w + zone w))
               (messages w))"

section \<open>A configuration and a world to run the phases on\<close>

definition example_config :: Config where
  "example_config =
     \<lparr>ViewportWidth = 1920, ViewportHeight = 1080, UserAgents = [''Mozilla/5.0''],
      ActionDelay = \<lparr>Min_ms = 2000, Max_ms = 5000\<rparr>,
      ScrollDelay = \<lparr>Min_ms = 1000, Max_ms = 3000\<rparr>,
      TypingDelay = \<lparr>Min_ms = 100, Max_ms = 300\<rparr>,
      ThinkTime = \<lparr>Min_ms = 0, Max_ms = 0\<rparr>,
      Connections = \<lparr>PerHour = 1, PerDay = 20\<rparr>,
      Messages = \<lparr>PerHour = 2, PerDay = 2\<rparr>,
      Searches = \<lparr>PerHour = 5, PerDay = 30\<rparr>,
      SendNote = False, MessagingEnabled = True, DelayAfterConnectionHours = 24,
      ActiveHoursStart = 9, ActiveHoursEnd = 18,
      ActiveDays = [''monday'', ''tuesday'', ''wednesday'', ''thursday'', ''friday''],
      DatabasePath = ''./data/linkedin.db''\<rparr>"

text \<open>An outside world in which nothing fails and nobody cancels.\<close>

definition quiet_stats :: stats_env where
  "quiet_stats =
     \<lparr>today_connections_err = None, today_messages_err = None,
      hourly_connections_err = None, hourly_messages_err = None\<rparr>"

definition quiet_env :: connect_env where
  "quiet_env =
     \<lparr>ctx_done = False, stats = quiet_stats, IsConnectionSent_err = None, Navigate_err = None,
      findConnectButton_err = None, HumanClick_err = None, addConnectionNote_err = None,
      clickSendButton_err = None, SaveConnectionRequest_err = None,
      interaction_seconds = 30, action_pause = 3, think_pause = 5\<rparr>"

definition profile_A :: Profile where
  "profile_A =
     \<lparr>p_ID = 1, p_ProfileURL = ''https://www.linkedin.com/in/a'', p_Name = ''A'',
      p_JobTitle = ''Engineer'', p_Company = ''Acme'', p_Location = ''Berlin'',
      p_Keywords = ''robotics'', p_DiscoveredAt = 1728035000\<rparr>"

definition profile_B :: Profile where
  "profile_B =
     \<lparr>p_ID = 2, p_ProfileURL = ''https://www.linkedin.com/in/b'', p_Name = ''B'',
      p_JobTitle = ''Designer'', p_Company = ''Acme'', p_Location = ''Berlin'',
      p_Keywords = ''robotics'', p_DiscoveredAt = 1728035000\<rparr>"

text \<open>
  An empty store at 10:00 of day 20000, of a process whose zone is UTC, and the same
  store two hours after a request to A.
\<close>

definition empty_world :: world where
  "empty_world =
     \<lparr>connection_requests = [], messages = [], activity_log = [],
      clock = 1728036000, zone = 0, navigated = []\<rparr>"

definition world_A :: world where
  "world_A =
     empty_world\<lparr>connection_requests :=
        [\<lparr>cr_ID = 1, cr_ProfileID = 1, cr_ProfileURL = ''https://www.linkedin.com/in/a'',
          cr_SentAt = 1728028800, cr_Note = [], cr_Status = ''pending'',
          cr_AcceptedAt = None\<rparr>]\<rparr>"


definition failing_env :: connect_env where
  "failing_env = quiet_env\<lparr>HumanClick_err := Some ''element not found''\<rparr>"


section \<open>Sequences of writes to the connection-request table\<close>

text \<open>
  The two statements of the program that write the table: the insert of
  \<open>SaveConnectionRequest\<close> and the update of \<open>UpdateConnectionStatus\<close> (which no code of
  the repository calls; acceptance is reported from outside). \<open>run_ops\<close> executes a
  list of them, each at the instant it is paired with.
\<close>

datatype request_op = Save ConnectionRequest | Update string string

fun apply_request_op :: "request_op \<Rightarrow> world \<Rightarrow> world" where
  "apply_request_op (Save req) w = snd (SaveConnectionRequest None req w)"
| "apply_request_op (Update profileURL status) w = UpdateConnectionStatus profileURL status w"

fun run_ops :: "(time \<times> request_op) list \<Rightarrow> world \<Rightarrow> world" where
  "run_ops [] w = w"
| "run_ops ((t, op) # ops) w = run_ops ops (apply_request_op op (w\<lparr>clock := t\<rparr>))"

definition inserts_not_accepted :: "(time \<times> request_op) list \<Rightarrow> bool" where
  "inserts_not_accepted ops =
     list_all (\<lambda>(t, op). case op of Save req \<Rightarrow> cr_Status req \<noteq> ''accepted''
                                  | Update _ _ \<Rightarrow> True) ops"

definition pending_request :: "string \<Rightarrow> ConnectionRequest" where
  "pending_request profileURL =
     \<lparr>cr_ID = 0, cr_ProfileID = 1, cr_ProfileURL = profileURL, cr_SentAt = 0,
      cr_Note = [], cr_Status = ''pending'', cr_AcceptedAt = None\<rparr>"



definition accepted_A :: ConnectionRequest where
  "accepted_A =
     \<lparr>cr_ID = 1, cr_ProfileID = 1, cr_ProfileURL = ''https://www.linkedin.com/in/a/'',
      cr_SentAt = 1728028800, cr_Note = [], cr_Status = ''accepted'',
      cr_AcceptedAt = Some 1728036000\<rparr>"

definition world_accepted :: world where
  "world_accepted =
     \<lparr>connection_requests = [accepted_A], messages = [], activity_log = [],
      clock = 1728122400, zone = 0, navigated = []\<rparr>"





text \<open>
  A configuration file whose hourly connection cap is zero, everything else as in
  \<open>example_config\<close>, and what \<open>Load\<close> reads when that file is in place and the two
  credentials are set.
\<close>

definition zero_hourly_config :: Config where
  "zero_hourly_config = example_config\<lparr>Connections := \<lparr>PerHour = 0, PerDay = 20\<rparr>\<rparr>"

definition zero_hourly_input :: load_input where
  "zero_hourly_input =
     \<lparr>ReadFile_err = None, Unmarshal_err = None, parsed = zero_hourly_config,
      LINKEDIN_EMAIL = ''user@example.com'', LINKEDIN_PASSWORD = ''secret'',
      DB_PATH = [], MAX_CONNECTIONS_PER_DAY = None, MAX_MESSAGES_PER_DAY = None\<rparr>"

text \<open>A message to A stored at a given instant.\<close>

definition sent_message :: "time \<Rightarrow> Message" where
  "sent_message t =
     \<lparr>m_ID = 0, m_ProfileID = 1, m_ProfileURL = ''https://www.linkedin.com/in/a/'',
      m_Content = ''Thanks for connecting!'', m_SentAt = t, m_Status = ''sent''\<rparr>"

text \<open>
  For the quota check: count queries that fail, the store of \<open>world_accepted\<close> with two
  messages of the last hour, and a store of a process ten hours east of UTC, read at
  05:00 of its day with two messages sent at 00:30 and 01:00 of that day.
\<close>

definition failing_stats :: stats_env where
  "failing_stats =
     \<lparr>today_connections_err = None, today_messages_err = Some ''database is locked'',
      hourly_connections_err = None, hourly_messages_err = Some ''database is locked''\<rparr>"

definition world_two_messages :: world where
  "world_two_messages =
     \<lparr>connection_requests = [], messages = [sent_message 1728120000, sent_message 1728121000],
      activity_log = [], clock = 1728122400, zone = 0, navigated = []\<rparr>"

definition world_east :: world where
  "world_east =
     \<lparr>connection_requests = [], messages = [sent_message 1728052200, sent_message 1728054000],
      activity_log = [], clock = 1728068400, zone = 36000, navigated = []\<rparr>"



section \<open>Properties\<close>

subsection \<open>Quota checks\<close>

lemma canSendConnection_iff:
  "canSendConnection cfg q w \<longleftrightarrow>
     ConnectionsSent (GetTodayStats q w) < PerDay (Connections cfg) \<and>
     ConnectionsSent (GetHourlyStats q w) < PerHour (Connections cfg)"
  by (auto simp add: canSendConnection_def Let_def)

lemma canSendMessage_iff:
  "canSendMessage cfg q w \<longleftrightarrow>
     MessagesSent (GetTodayStats q w) < PerDay (Messages cfg) \<and>
     MessagesSent (GetHourlyStats q w) < PerHour (Messages cfg)"
  by (auto simp add: canSendMessage_def Let_def)

lemma connections_counts_in_utc:
  assumes "zone w = 0" and "hourly_connections_err q = None"
    and "today_connections_err q = None"
  shows "ConnectionsSent (GetHourlyStats q w) = int (connections_last_hour w)"
    and "ConnectionsSent (GetTodayStats q w) = int (connections_today w)"
  using assms
  by (simp_all add: GetHourlyStats_def GetTodayStats_def connections_last_hour_def
      connections_today_def Let_def)

lemma messages_counts_in_utc:
  assumes "zone w = 0" and "hourly_messages_err q = None" and "today_messages_err q = None"
  shows "MessagesSent (GetHourlyStats q w) = int (messages_last_hour w)"
    and "MessagesSent (GetTodayStats q w) = int (messages_today w)"
  using assms
  by (simp_all add: GetHourlyStats_def GetTodayStats_def messages_last_hour_def
      messages_today_def Let_def)

lemmas count_defs = GetHourlyStats_def GetTodayStats_def messages_last_hour_def
  messages_today_def connections_last_hour_def connections_today_def
  date_of_def day_def hour_def Let_def

text \<open>
  C1, as stated, fails. The check compares the counts the two stats functions deliver,
  and those are not always the counts of the persisted records. A count query that
  fails delivers 0: with two messages in the last hour, caps of 2 and failing message
  queries the check answers true. And the daily query matches the UTC day of a record
  against the local day of the clock: ten hours east of UTC, at 05:00 with two messages
  sent since local midnight (none of them in the last hour) and a daily cap of 2, both
  queries succeed, the daily one delivers 0, and the check answers true.
\<close>

theorem quota_check_misses_records:
  "PerHour (Messages example_config) = 2 \<and> PerDay (Messages example_config) = 2 \<and>
   messages_last_hour world_two_messages = 2 \<and> messages_today world_two_messages = 2 \<and>
   canSendMessage example_config failing_stats world_two_messages \<and>
   messages_last_hour world_east = 0 \<and> messages_today world_east = 2 \<and>
   canSendMessage example_config quiet_stats world_east"
  by (simp add: example_config_def failing_stats_def quiet_stats_def world_two_messages_def
      world_east_def sent_message_def canSendMessage_def count_defs)

text \<open>
  C1, amended. For connections and for messages, the quota check answers true exactly
  when the count \<open>GetHourlyStats\<close> delivers is strictly below the hourly cap and the
  count \<open>GetTodayStats\<close> delivers is strictly below the daily cap; a delivered count
  that has reached its cap (equal to it or above) makes the check answer false. For a
  process whose zone is UTC and count queries that succeed, the delivered counts are
  the numbers of that kind's persisted records of the last hour and of the current
  calendar day, so there the check blocks exactly when one of those numbers has reached
  its cap. A count query that fails delivers 0.
\<close>

theorem quota_check_blocks_at_cap:
  "(canSendConnection cfg q w \<longleftrightarrow>
      ConnectionsSent (GetHourlyStats q w) < PerHour (Connections cfg) \<and>
      ConnectionsSent (GetTodayStats q w) < PerDay (Connections cfg)) \<and>
   (canSendMessage cfg q w \<longleftrightarrow>
      MessagesSent (GetHourlyStats q w) < PerHour (Messages cfg) \<and>
      MessagesSent (GetTodayStats q w) < PerDay (Messages cfg)) \<and>
   (zone w = 0 \<and> hourly_connections_err q = None \<and> today_connections_err q = None \<longrightarrow>
      ConnectionsSent (GetHourlyStats q w) = int (connections_last_hour w) \<and>
      ConnectionsSent (GetTodayStats q w) = int (connections_today w) \<and>
      (canSendConnection cfg q w \<longleftrightarrow>
         int (connections_last_hour w) < PerHour (Connections cfg) \<and>
         int (connections_today w) < PerDay (Connections cfg))) \<and>
   (zone w = 0 \<and> hourly_messages_err q = None \<and> today_messages_err q = None \<longrightarrow>
      MessagesSent (GetHourlyStats q w) = int (messages_last_hour w) \<and>
      MessagesSent (GetTodayStats q w) = int (messages_today w) \<and>
      (canSendMessage cfg q w \<longleftrightarrow>
         int (messages_last_hour w) < PerHour (Messages cfg) \<and>
         int (messages_today w) < PerDay (Messages cfg))) \<and>
   (hourly_connections_err q \<noteq> None \<longrightarrow> ConnectionsSent (GetHourlyStats q w) = 0) \<and>
   (today_connections_err q \<noteq> None \<longrightarrow> ConnectionsSent (GetTodayStats q w) = 0) \<and>
   (hourly_messages_err q \<noteq> None \<longrightarrow> MessagesSent (GetHourlyStats q w) = 0) \<and>
   (today_messages_err q \<noteq> None \<longrightarrow> MessagesSent (GetTodayStats q w) = 0)"
proof -
  have p1: "canSendConnection cfg q w \<longleftrightarrow>
      ConnectionsSent (GetHourlyStats q w) < PerHour (Connections cfg) \<and>
      ConnectionsSent (GetTodayStats q w) < PerDay (Connections cfg)"
    unfolding canSendConnection_iff by blast
  have p2: "canSendMessage cfg q w \<longleftrightarrow>
      MessagesSent (GetHourlyStats q w) < PerHour (Messages cfg) \<and>
      MessagesSent (GetTodayStats q w) < PerDay (Messages cfg)"
    unfolding canSendMessage_iff by blast
  have p3: "ConnectionsSent (GetHourlyStats q w) = int (connections_last_hour w) \<and>
      ConnectionsSent (GetTodayStats q w) = int (connections_today w) \<and>
      (canSendConnection cfg q w \<longleftrightarrow>
         int (connections_last_hour w) < PerHour (Connections cfg) \<and>
         int (connections_today w) < PerDay (Connections cfg))"
    if "zone w = 0 \<and> hourly_connections_err q = None \<and> today_connections_err q = None"
    using that p1 connections_counts_in_utc [of w q] by simp
  have p4: "MessagesSent (GetHourlyStats q w) = int (messages_last_hour w) \<and>
      MessagesSent (GetTodayStats q w) = int (messages_today w) \<and>
      (canSendMessage cfg q w \<longleftrightarrow>
         int (messages_last_hour w) < PerHour (Messages cfg) \<and>
         int (messages_today w) < PerDay (Messages cfg))"
    if "zone w = 0 \<and> hourly_messages_err q = None \<and> today_messages_err q = None"
    using that p2 messages_counts_in_utc [of w q] by simp
  have p5: "hourly_connections_err q \<noteq> None \<longrightarrow> ConnectionsSent (GetHourlyStats q w) = 0"
    "today_connections_err q \<noteq> None \<longrightarrow> ConnectionsSent (GetTodayStats q w) = 0"
    "hourly_messages_err q \<noteq> None \<longrightarrow> MessagesSent (GetHourlyStats q w) = 0"
    "today_messages_err q \<noteq> None \<longrightarrow> MessagesSent (GetTodayStats q w) = 0"
    by (simp_all add: GetHourlyStats_def GetTodayStats_def Let_def)
  from p1 p2 p3 p4 p5 show ?thesis by blast
qed

theorem quota_check_blocks_at_cap_witness:
  "PerHour (Messages example_config) = 2 \<and> PerDay (Messages example_config) = 2 \<and>
   (zone world_accepted = 0 \<and> hourly_messages_err quiet_stats = None \<and>
    today_messages_err quiet_stats = None) \<and>
   messages_last_hour world_accepted = 0 \<and> messages_today world_accepted = 0 \<and>
   canSendMessage example_config quiet_stats world_accepted \<and>
   messages_last_hour (world_accepted\<lparr>messages := [sent_message 1728121000]\<rparr>) = 1 \<and>
   messages_today (world_accepted\<lparr>messages := [sent_message 1728121000]\<rparr>) = 1 \<and>
   canSendMessage example_config quiet_stats
     (world_accepted\<lparr>messages := [sent_message 1728121000]\<rparr>) \<and>
   messages_last_hour world_two_messages = 2 \<and>
   \<not> canSendMessage example_config quiet_stats world_two_messages \<and>
   messages_last_hour
     (world_accepted\<lparr>messages := [sent_message 1728090000, sent_message 1728121000]\<rparr>) = 1 \<and>
   messages_today
     (world_accepted\<lparr>messages := [sent_message 1728090000, sent_message 1728121000]\<rparr>) = 2 \<and>
   \<not> canSendMessage example_config quiet_stats
     (world_accepted\<lparr>messages := [sent_message 1728090000, sent_message 1728121000]\<rparr>) \<and>
   hourly_messages_err failing_stats \<noteq> None \<and>
   MessagesSent (GetHourlyStats failing_stats world_two_messages) = 0"
proof -
  note t = quota_check_blocks_at_cap [where cfg = example_config]
  note ev = world_accepted_def world_two_messages_def sent_message_def count_defs
  let ?w1 = "world_accepted\<lparr>messages := [sent_message 1728121000]\<rparr>"
  let ?w3 = "world_accepted\<lparr>messages := [sent_message 1728090000, sent_message 1728121000]\<rparr>"
  have caps: "PerHour (Messages example_config) = 2" "PerDay (Messages example_config) = 2"
    by (simp_all add: example_config_def)
  have u: "zone w = 0 \<and> hourly_messages_err quiet_stats = None \<and>
           today_messages_err quiet_stats = None"
    if "zone w = 0" for w
    using that by (simp add: quiet_stats_def)
  have z: "zone world_accepted = 0" "zone ?w1 = 0" "zone world_two_messages = 0" "zone ?w3 = 0"
    by (simp_all add: world_accepted_def world_two_messages_def)
  have n: "messages_last_hour world_accepted = 0" "messages_today world_accepted = 0"
    "messages_last_hour ?w1 = 1" "messages_today ?w1 = 1"
    "messages_last_hour world_two_messages = 2"
    "messages_last_hour ?w3 = 1" "messages_today ?w3 = 2"
    by (simp_all add: ev)
  note k = t [THEN conjunct2, THEN conjunct2, THEN conjunct2, THEN conjunct1, THEN mp,
              THEN conjunct2, THEN conjunct2]
  have c0: "canSendMessage example_config quiet_stats world_accepted"
    using k [OF u [OF z(1)]] by (simp add: caps n)
  have c1: "canSendMessage example_config quiet_stats ?w1"
    using k [OF u [OF z(2)]] by (simp add: caps n)
  have c2: "\<not> canSendMessage example_config quiet_stats world_two_messages"
    using k [OF u [OF z(3)]] by (simp add: caps n)
  have c3: "\<not> canSendMessage example_config quiet_stats ?w3"
    using k [OF u [OF z(4)]] by (simp add: caps n)
  have f: "hourly_messages_err failing_stats \<noteq> None"
    by (simp add: failing_stats_def)
  have c4: "MessagesSent (GetHourlyStats failing_stats world_two_messages) = 0"
    using t [where q = failing_stats and w = world_two_messages,
             THEN conjunct2, THEN conjunct2, THEN conjunct2, THEN conjunct2,
             THEN conjunct2, THEN conjunct2, THEN conjunct1, THEN mp, OF f] .
  show ?thesis
    using caps u [OF z(1)] n c0 c1 c2 c3 f c4 by blast
qed

subsection \<open>Connection phase\<close>

lemma IsConnectionSent_iff:
  "IsConnectionSent u w \<longleftrightarrow> u \<in> cr_ProfileURL ` set (connection_requests w)"
  by (auto simp add: IsConnectionSent_def filter_empty_conv)

lemma sendConnectionRequest_failure:
  assumes "sendConnectionRequest cfg e profile w = (Some err, w1)"
  shows "w1 = w\<lparr>navigated := navigated w @ [p_ProfileURL profile],
                 clock := clock w + int (interaction_seconds e)\<rparr>"
  using assms
  by (auto simp add: sendConnectionRequest_def Let_def SaveConnectionRequest_def LogActivity_def
      split: option.splits if_splits)

lemma sendConnectionRequest_success:
  assumes "sendConnectionRequest cfg e profile w = (None, w1)"
  shows "SaveConnectionRequest_err e = None \<and>
         w1 = w\<lparr>navigated := navigated w @ [p_ProfileURL profile],
                 clock := clock w + int (interaction_seconds e),
                 connection_requests := connection_requests w @
                   [\<lparr>cr_ID = int (length (connection_requests w)) + 1,
                     cr_ProfileID = p_ID profile,
                     cr_ProfileURL = p_ProfileURL profile,
                     cr_SentAt = clock w + int (interaction_seconds e),
                     cr_Note = [], cr_Status = ''pending'', cr_AcceptedAt = None\<rparr>],
                 activity_log := activity_log w @
                   [\<lparr>action_type = ''connection_request'',
                     target_url = p_ProfileURL profile, outcome = ''success'',
                     error_message = [],
                     created_at = clock w + int (interaction_seconds e)\<rparr>]\<rparr>"
  using assms
  by (auto simp add: sendConnectionRequest_def Let_def SaveConnectionRequest_def LogActivity_def Errorf_def
      split: option.splits if_splits)


lemma connection_pass_already_sent:
  assumes "IsConnectionSent (p_ProfileURL profile) w"
  shows "snd (connection_pass cfg e profile sent w) = (sent, w)"
  using assms by (simp add: connection_pass_def)

lemma connection_pass_requests:
  assumes "connection_pass cfg e profile sent w = (f, sent1, w1)"
  shows "connection_requests w1 = connection_requests w \<or>
         (\<not> IsConnectionSent (p_ProfileURL profile) w \<and>
          (\<exists>row. cr_ProfileURL row = p_ProfileURL profile \<and>
                 connection_requests w1 = connection_requests w @ [row]))"
proof (cases "sendConnectionRequest cfg e profile w")
  case (Pair r w0)
  show ?thesis
  proof (cases r)
    case None
    with Pair sendConnectionRequest_success [of cfg e profile w w0] assms show ?thesis
      by (auto simp add: connection_pass_def Let_def split: if_splits)
  next
    case (Some err)
    with Pair sendConnectionRequest_failure [of cfg e profile w err w0] assms show ?thesis
      by (auto simp add: connection_pass_def LogActivity_def split: if_splits)
  qed
qed

lemma connection_pass_navigated:
  assumes "connection_pass cfg e profile sent w = (f, sent1, w1)"
  shows "navigated w1 = navigated w \<or>
         (\<not> IsConnectionSent (p_ProfileURL profile) w \<and>
          navigated w1 = navigated w @ [p_ProfileURL profile])"
proof (cases "sendConnectionRequest cfg e profile w")
  case (Pair r w0)
  show ?thesis
  proof (cases r)
    case None
    with Pair sendConnectionRequest_success [of cfg e profile w w0] assms show ?thesis
      by (auto simp add: connection_pass_def Let_def split: if_splits)
  next
    case (Some err)
    with Pair sendConnectionRequest_failure [of cfg e profile w err w0] assms show ?thesis
      by (auto simp add: connection_pass_def LogActivity_def split: if_splits)
  qed
qed

text \<open>What the phase keeps for a URL \<open>u\<close> that has a record when a pass starts.\<close>

lemma connection_pass_keeps:
  assumes "connection_pass cfg e profile sent w = (f, sent1, w1)"
    and "IsConnectionSent u w"
  shows "IsConnectionSent u w1
         \<and> filter (\<lambda>r. cr_ProfileURL r = u) (connection_requests w1)
             = filter (\<lambda>r. cr_ProfileURL r = u) (connection_requests w)
         \<and> filter (\<lambda>v. v = u) (navigated w1) = filter (\<lambda>v. v = u) (navigated w)"
  using connection_pass_requests [OF assms(1)] connection_pass_navigated [OF assms(1)] assms(2)
  by (auto simp add: IsConnectionSent_iff)

lemma connection_pass_distinct:
  assumes "connection_pass cfg e profile sent w = (f, sent1, w1)"
    and "distinct (map cr_ProfileURL (connection_requests w))"
  shows "distinct (map cr_ProfileURL (connection_requests w1))"
  using connection_pass_requests [OF assms(1)] assms(2)
  by (auto simp add: IsConnectionSent_iff)

lemma connection_loop_keeps:
  assumes "connection_loop cfg env i sent w profiles = (n, err, w')"
    and "IsConnectionSent u w"
  shows "filter (\<lambda>r. cr_ProfileURL r = u) (connection_requests w')
           = filter (\<lambda>r. cr_ProfileURL r = u) (connection_requests w)
         \<and> filter (\<lambda>v. v = u) (navigated w') = filter (\<lambda>v. v = u) (navigated w)"
  using assms
proof (induction profiles arbitrary: i sent w)
  case Nil
  then show ?case by simp
next
  case (Cons profile rest)
  obtain f sent1 w1 where p: "connection_pass cfg (env i) profile sent w = (f, sent1, w1)"
    by (cases "connection_pass cfg (env i) profile sent w") auto
  note k = connection_pass_keeps [OF p Cons.prems(2)]
  show ?case
  proof (cases f)
    case Continue
    with p Cons.prems(1) have "connection_loop cfg env (Suc i) sent1 w1 rest = (n, err, w')"
      by simp
    from Cons.IH [OF this] k show ?thesis by simp
  next
    case Break
    with p Cons.prems(1) have "w' = w1" by simp
    with k show ?thesis by simp
  next
    case Return
    with p Cons.prems(1) have "w' = w1" by simp
    with k show ?thesis by simp
  qed
qed

lemma connection_loop_distinct:
  assumes "connection_loop cfg env i sent w profiles = (n, err, w')"
    and "distinct (map cr_ProfileURL (connection_requests w))"
  shows "distinct (map cr_ProfileURL (connection_requests w'))"
  using assms
proof (induction profiles arbitrary: i sent w)
  case Nil
  then show ?case by simp
next
  case (Cons profile rest)
  obtain f sent1 w1 where p: "connection_pass cfg (env i) profile sent w = (f, sent1, w1)"
    by (cases "connection_pass cfg (env i) profile sent w") auto
  note d = connection_pass_distinct [OF p Cons.prems(2)]
  show ?case
  proof (cases f)
    case Continue
    with p Cons.prems(1) have "connection_loop cfg env (Suc i) sent1 w1 rest = (n, err, w')"
      by simp
    from Cons.IH [OF this d] show ?thesis .
  next
    case Break
    with p Cons.prems(1) d show ?thesis by simp
  next
    case Return
    with p Cons.prems(1) d show ?thesis by simp
  qed
qed



lemmas scenario_defs = example_config_def quiet_env_def quiet_stats_def profile_A_def profile_B_def
  empty_world_def failing_env_def

lemmas phase_defs = SendConnectionRequests_def connection_pass_def sendConnectionRequest_def
  canSendConnection_def GetTodayStats_def GetHourlyStats_def IsConnectionSent_def
  SaveConnectionRequest_def LogActivity_def date_of_def day_def hour_def Let_def

text \<open>
  C2. A profile that already has a connection-request record, whatever its status, is
  passed over by the loop of \<open>SendConnectionRequests\<close>: the pass leaves the counter and
  the whole state as they were, and over the whole phase the records of that URL stay
  the same and the browser is never sent to it. Hence a table with at most one record
  per profile URL still has at most one record per profile URL after the phase.
\<close>

theorem existing_request_is_skipped:
  "(IsConnectionSent (p_ProfileURL profile) w \<longrightarrow>
      snd (connection_pass cfg e profile sent w) = (sent, w) \<and>
      (let w' = snd (snd (SendConnectionRequests cfg env profiles w)) in
       filter (\<lambda>r. cr_ProfileURL r = p_ProfileURL profile) (connection_requests w')
         = filter (\<lambda>r. cr_ProfileURL r = p_ProfileURL profile) (connection_requests w) \<and>
       filter (\<lambda>v. v = p_ProfileURL profile) (navigated w')
         = filter (\<lambda>v. v = p_ProfileURL profile) (navigated w))) \<and>
   (distinct (map cr_ProfileURL (connection_requests w)) \<longrightarrow>
      distinct (map cr_ProfileURL
        (connection_requests (snd (snd (SendConnectionRequests cfg env profiles w))))))"
proof -
  obtain n err w' where r: "connection_loop cfg env 0 0 w profiles = (n, err, w')"
    by (cases "connection_loop cfg env 0 0 w profiles") auto
  show ?thesis
    using connection_pass_already_sent [of profile w cfg e sent]
      connection_loop_keeps [OF r, of "p_ProfileURL profile"]
      connection_loop_distinct [OF r]
    by (simp add: SendConnectionRequests_def r)
qed

theorem existing_request_is_skipped_witness:
  "IsConnectionSent (p_ProfileURL profile_A) world_A \<and>
   distinct (map cr_ProfileURL (connection_requests world_A)) \<and>
   fst (SendConnectionRequests example_config (\<lambda>_. quiet_env) [profile_A, profile_B] world_A) = 1 \<and>
   snd (connection_pass example_config quiet_env profile_A 0 world_A) = (0, world_A) \<and>
   filter (\<lambda>r. cr_ProfileURL r = p_ProfileURL profile_A)
     (connection_requests (snd (snd (SendConnectionRequests example_config (\<lambda>_. quiet_env)
        [profile_A, profile_B] world_A))))
     = connection_requests world_A \<and>
   filter (\<lambda>v. v = p_ProfileURL profile_A)
     (navigated (snd (snd (SendConnectionRequests example_config (\<lambda>_. quiet_env)
        [profile_A, profile_B] world_A)))) = [] \<and>
   distinct (map cr_ProfileURL
     (connection_requests (snd (snd (SendConnectionRequests example_config (\<lambda>_. quiet_env)
        [profile_A, profile_B] world_A)))))"
proof -
  have h1: "IsConnectionSent (p_ProfileURL profile_A) world_A"
    by (simp add: scenario_defs world_A_def IsConnectionSent_def)
  have h2: "distinct (map cr_ProfileURL (connection_requests world_A))"
    by (simp add: scenario_defs world_A_def)
  have h3: "fst (SendConnectionRequests example_config (\<lambda>_. quiet_env)
              [profile_A, profile_B] world_A) = 1"
    by (simp add: scenario_defs world_A_def phase_defs)
  have h4: "filter (\<lambda>r. cr_ProfileURL r = p_ProfileURL profile_A) (connection_requests world_A)
              = connection_requests world_A"
    by (simp add: scenario_defs world_A_def)
  have h5: "filter (\<lambda>v. v = p_ProfileURL profile_A) (navigated world_A) = []"
    by (simp add: scenario_defs world_A_def)
  from existing_request_is_skipped
         [of profile_A world_A example_config quiet_env 0 "\<lambda>_. quiet_env" "[profile_A, profile_B]"]
       h1 h2 h3 h4 h5
  show ?thesis by (simp add: Let_def)
qed















subsection \<open>Request status and acceptance timestamp\<close>

lemmas store_defs = SaveConnectionRequest_def UpdateConnectionStatus_def pending_request_def

lemma apply_request_op_accepted:
  assumes "\<forall>r \<in> set (connection_requests w). cr_Status r = ''accepted'' \<longrightarrow> cr_AcceptedAt r \<noteq> None"
    and "case op of Save req \<Rightarrow> cr_Status req \<noteq> ''accepted'' | Update _ _ \<Rightarrow> True"
  shows "\<forall>r \<in> set (connection_requests (apply_request_op op (w\<lparr>clock := t\<rparr>))).
           cr_Status r = ''accepted'' \<longrightarrow> cr_AcceptedAt r \<noteq> None"
  using assms
  by (cases op) (auto simp add: SaveConnectionRequest_def UpdateConnectionStatus_def)

lemma run_ops_accepted:
  assumes "\<forall>r \<in> set (connection_requests w). cr_Status r = ''accepted'' \<longrightarrow> cr_AcceptedAt r \<noteq> None"
    and "inserts_not_accepted ops"
  shows "\<forall>r \<in> set (connection_requests (run_ops ops w)).
           cr_Status r = ''accepted'' \<longrightarrow> cr_AcceptedAt r \<noteq> None"
  using assms
proof (induction ops arbitrary: w)
  case Nil
  then show ?case by simp
next
  case (Cons top ops)
  obtain t op where top: "top = (t, op)" by (cases top)
  from Cons.prems(2) top
  have o: "case op of Save req \<Rightarrow> cr_Status req \<noteq> ''accepted'' | Update _ _ \<Rightarrow> True"
    and rest: "inserts_not_accepted ops"
    by (simp_all add: inserts_not_accepted_def)
  from Cons.IH [OF apply_request_op_accepted [OF Cons.prems(1) o, of t] rest] top
  show ?case by simp
qed

text \<open>Where a timestamp comes from: an update to accepted, at that instant, for that URL.\<close>

lemma apply_request_op_origin:
  assumes "\<forall>r \<in> set (connection_requests w). \<forall>a. cr_AcceptedAt r = Some a \<longrightarrow>
             (a, Update (cr_ProfileURL r) ''accepted'') \<in> S"
  shows "\<forall>r \<in> set (connection_requests (apply_request_op op (w\<lparr>clock := t\<rparr>))).
           \<forall>a. cr_AcceptedAt r = Some a \<longrightarrow>
             (a, Update (cr_ProfileURL r) ''accepted'') \<in> insert (t, op) S"
  using assms
  by (cases op)
    (auto simp add: SaveConnectionRequest_def UpdateConnectionStatus_def split: if_splits)

lemma run_ops_origin:
  assumes "\<forall>r \<in> set (connection_requests w). \<forall>a. cr_AcceptedAt r = Some a \<longrightarrow>
             (a, Update (cr_ProfileURL r) ''accepted'') \<in> S"
  shows "\<forall>r \<in> set (connection_requests (run_ops ops w)).
           \<forall>a. cr_AcceptedAt r = Some a \<longrightarrow>
             (a, Update (cr_ProfileURL r) ''accepted'') \<in> S \<union> set ops"
  using assms
proof (induction ops arbitrary: w S)
  case Nil
  then show ?case by simp
next
  case (Cons top ops)
  obtain t op where top: "top = (t, op)" by (cases top)
  from Cons.IH [OF apply_request_op_origin [OF Cons.prems, of op t]] top
  show ?case by simp
qed

text \<open>
  C5, as stated, fails in both directions. The update keeps \<open>accepted_at\<close> for every
  status other than \<open>accepted\<close>, so a request that was accepted and is then set to
  \<open>rejected\<close> has a timestamp and is not accepted; and the insert stores the status
  it is given with no timestamp, so a request inserted as \<open>accepted\<close> has none.
\<close>

theorem accepted_at_survives_rejection:
  "connection_requests (run_ops
        [(100, Save (pending_request ''u'')), (200, Update ''u'' ''accepted''),
         (300, Update ''u'' ''rejected'')] empty_world) =
     [\<lparr>cr_ID = 1, cr_ProfileID = 1, cr_ProfileURL = ''u'', cr_SentAt = 100, cr_Note = [],
       cr_Status = ''rejected'', cr_AcceptedAt = Some 200\<rparr>] \<and>
   connection_requests (run_ops
        [(100, Save ((pending_request ''u'')\<lparr>cr_Status := ''accepted''\<rparr>))] empty_world) =
     [\<lparr>cr_ID = 1, cr_ProfileID = 1, cr_ProfileURL = ''u'', cr_SentAt = 100, cr_Note = [],
       cr_Status = ''accepted'', cr_AcceptedAt = None\<rparr>]"
  by (simp add: store_defs empty_world_def)

lemma run_ops_append: "run_ops (ops @ ops2) w = run_ops ops2 (run_ops ops w)"
  by (induction ops arbitrary: w) auto

lemma update_keeps_timestamp:
  assumes "status \<noteq> ''accepted''"
  shows "map cr_AcceptedAt (connection_requests (UpdateConnectionStatus u status w))
           = map cr_AcceptedAt (connection_requests w)"
  using assms by (simp add: UpdateConnectionStatus_def)

lemma update_sets_status:
  "map cr_Status (connection_requests (UpdateConnectionStatus u status w))
     = map (\<lambda>r. if cr_ProfileURL r = u then status else cr_Status r) (connection_requests w)"
  by (simp add: UpdateConnectionStatus_def)

lemma update_accepted_stamps:
  "map cr_AcceptedAt (connection_requests (UpdateConnectionStatus u ''accepted'' w))
     = map (\<lambda>r. if cr_ProfileURL r = u then Some (clock w) else cr_AcceptedAt r)
         (connection_requests w)"
  by (simp add: UpdateConnectionStatus_def)

text \<open>
  C5, amended. On a table that starts empty, after every sequence of inserts made with
  a status other than \<open>accepted\<close> (the connection phase inserts \<open>pending\<close>) and of
  status updates, every record whose status is \<open>accepted\<close> has its timestamp set, and
  every record whose timestamp is set got it from an update of its URL to \<open>accepted\<close>,
  at the instant of that update. An update to any other status leaves the timestamp of
  every record as it was, as a single statement and at the end of any sequence, while
  it does set the status of the records of its URL; an update to \<open>accepted\<close> stamps the
  records of its URL with the instant of the update and leaves the others.
\<close>

theorem accepted_requests_have_timestamp:
  "(connection_requests w = [] \<and> inserts_not_accepted ops \<longrightarrow>
      (\<forall>r \<in> set (connection_requests (run_ops ops w)).
          (cr_Status r = ''accepted'' \<longrightarrow> cr_AcceptedAt r \<noteq> None) \<and>
          (\<forall>a. cr_AcceptedAt r = Some a \<longrightarrow>
                 (a, Update (cr_ProfileURL r) ''accepted'') \<in> set ops))) \<and>
   (status \<noteq> ''accepted'' \<longrightarrow>
      map cr_AcceptedAt (connection_requests (UpdateConnectionStatus u status w))
        = map cr_AcceptedAt (connection_requests w) \<and>
      map cr_AcceptedAt (connection_requests (run_ops (ops @ [(t, Update u status)]) w))
        = map cr_AcceptedAt (connection_requests (run_ops ops w))) \<and>
   map cr_Status (connection_requests (UpdateConnectionStatus u status w))
     = map (\<lambda>r. if cr_ProfileURL r = u then status else cr_Status r) (connection_requests w) \<and>
   map cr_AcceptedAt (connection_requests (UpdateConnectionStatus u ''accepted'' w))
     = map (\<lambda>r. if cr_ProfileURL r = u then Some (clock w) else cr_AcceptedAt r)
         (connection_requests w)"
proof -
  have p1: "\<forall>r \<in> set (connection_requests (run_ops ops w)).
          (cr_Status r = ''accepted'' \<longrightarrow> cr_AcceptedAt r \<noteq> None) \<and>
          (\<forall>a. cr_AcceptedAt r = Some a \<longrightarrow>
                 (a, Update (cr_ProfileURL r) ''accepted'') \<in> set ops)"
    if "connection_requests w = [] \<and> inserts_not_accepted ops"
    using run_ops_accepted [of w ops] run_ops_origin [of w "{}" ops] that
    by simp
  have p2: "map cr_AcceptedAt (connection_requests (UpdateConnectionStatus u status w))
        = map cr_AcceptedAt (connection_requests w) \<and>
      map cr_AcceptedAt (connection_requests (run_ops (ops @ [(t, Update u status)]) w))
        = map cr_AcceptedAt (connection_requests (run_ops ops w))"
    if "status \<noteq> ''accepted''"
    using update_keeps_timestamp [OF that, of u w]
      update_keeps_timestamp [OF that, of u "(run_ops ops w)\<lparr>clock := t\<rparr>"]
    by (simp add: run_ops_append)
  from p1 p2 update_sets_status [of u status w] update_accepted_stamps [of u w]
  show ?thesis by blast
qed

theorem accepted_requests_have_timestamp_witness:
  "connection_requests empty_world = [] \<and>
   inserts_not_accepted [(100, Save (pending_request ''u'')), (200, Update ''u'' ''accepted'')] \<and>
   connection_requests (run_ops
      [(100, Save (pending_request ''u'')), (200, Update ''u'' ''accepted'')] empty_world) =
     [\<lparr>cr_ID = 1, cr_ProfileID = 1, cr_ProfileURL = ''u'', cr_SentAt = 100, cr_Note = [],
       cr_Status = ''accepted'', cr_AcceptedAt = Some 200\<rparr>] \<and>
   (200, Update ''u'' ''accepted'')
     \<in> set [(100, Save (pending_request ''u'')), (200, Update ''u'' ''accepted'')] \<and>
   ''rejected'' \<noteq> ''accepted'' \<and>
   map cr_AcceptedAt (connection_requests (run_ops
      ([(100, Save (pending_request ''u'')), (200, Update ''u'' ''accepted'')]
         @ [(300, Update ''u'' ''rejected'')]) empty_world)) = [Some 200] \<and>
   map cr_Status (connection_requests (run_ops
      ([(100, Save (pending_request ''u'')), (200, Update ''u'' ''accepted'')]
         @ [(300, Update ''u'' ''rejected'')]) empty_world)) = [''rejected'']"
proof -
  note t = accepted_requests_have_timestamp
  let ?ops = "[(100, Save (pending_request ''u'')), (200, Update ''u'' ''accepted'')]"
  have h1: "connection_requests empty_world = [] \<and> inserts_not_accepted ?ops"
    by (simp add: empty_world_def inserts_not_accepted_def pending_request_def)
  have h3: "connection_requests (run_ops ?ops empty_world) =
     [\<lparr>cr_ID = 1, cr_ProfileID = 1, cr_ProfileURL = ''u'', cr_SentAt = 100, cr_Note = [],
       cr_Status = ''accepted'', cr_AcceptedAt = Some 200\<rparr>]"
    by (simp add: store_defs empty_world_def)
  have h4: "''rejected'' \<noteq> ''accepted''" by simp
  have c1: "\<forall>r \<in> set (connection_requests (run_ops ?ops empty_world)).
          (cr_Status r = ''accepted'' \<longrightarrow> cr_AcceptedAt r \<noteq> None) \<and>
          (\<forall>a. cr_AcceptedAt r = Some a \<longrightarrow>
                 (a, Update (cr_ProfileURL r) ''accepted'') \<in> set ?ops)"
    using t [where w = empty_world and ops = ?ops, THEN conjunct1, THEN mp, OF h1] .
  have c1a: "(200, Update ''u'' ''accepted'') \<in> set ?ops"
    using c1 by (simp add: h3)
  have c2: "map cr_AcceptedAt (connection_requests
               (run_ops (?ops @ [(300, Update ''u'' ''rejected'')]) empty_world))
        = map cr_AcceptedAt (connection_requests (run_ops ?ops empty_world))"
    using t [where w = empty_world and ops = ?ops and status = "''rejected''"
               and u = "''u''" and t = 300,
             THEN conjunct2, THEN conjunct1, THEN mp, OF h4, THEN conjunct2] .
  have c2a: "map cr_AcceptedAt (connection_requests
               (run_ops (?ops @ [(300, Update ''u'' ''rejected'')]) empty_world)) = [Some 200]"
    using c2 by (simp only: h3) simp
  have e: "connection_requests ((run_ops ?ops empty_world)\<lparr>clock := 300\<rparr>) =
     [\<lparr>cr_ID = 1, cr_ProfileID = 1, cr_ProfileURL = ''u'', cr_SentAt = 100, cr_Note = [],
       cr_Status = ''accepted'', cr_AcceptedAt = Some 200\<rparr>]"
    using h3 by simp
  have r: "run_ops (?ops @ [(300, Update ''u'' ''rejected'')]) empty_world
             = UpdateConnectionStatus ''u'' ''rejected''
                 ((run_ops ?ops empty_world)\<lparr>clock := 300\<rparr>)"
    by (simp only: run_ops_append run_ops.simps apply_request_op.simps)
  have c3: "map cr_Status (connection_requests
               (run_ops (?ops @ [(300, Update ''u'' ''rejected'')]) empty_world))
            = [''rejected'']"
    unfolding r
    by (simp only: t [where w = "(run_ops ?ops empty_world)\<lparr>clock := 300\<rparr>"
                        and status = "''rejected''" and u = "''u''",
                      THEN conjunct2, THEN conjunct2, THEN conjunct1] e) simp
  show ?thesis
    using h1 h3 c1a h4 c2a c3 by blast
qed

subsection \<open>Message phase\<close>






































subsection \<open>Active window\<close>



lemma Date_at_next_day: "Date_at d h + 24 * hour = Date_at (d + 1) h"
  by (simp add: Date_at_def day_def hour_def algebra_simps)












subsection \<open>Pacing delays\<close>

lemma wrap64_id:
  assumes "- (2 ^ 63) \<le> x" and "x < 2 ^ 63"
  shows "wrap64 x = x"
proof -
  have "0 \<le> x + 2 ^ 63" and "x + 2 ^ 63 < 2 ^ 64" using assms by simp_all
  then have "(x + 2 ^ 63) mod 2 ^ 64 = x + 2 ^ 63"
    by (rule mod_pos_pos_trivial)
  then show ?thesis by (simp add: wrap64_def)
qed

lemma RandomDelay_in_band:
  assumes band: "delay_band cfg delayType = (mn, mx)"
    and range: "0 \<le> mn" "mn \<le> mx" "mx \<le> 9223372036854"
  shows "RandomDelay cfg delayType r = Inr ((mn + int r mod (mx - mn + 1)) * Millisecond)"
    and "mn \<le> mn + int r mod (mx - mn + 1)"
    and "mn + int r mod (mx - mn + 1) \<le> mx"
proof -
  define k where "k = int r mod (mx - mn + 1)"
  have pos: "0 < mx - mn + 1" using range by simp
  have k: "0 \<le> k" "k \<le> mx - mn"
    using pos_mod_sign [OF pos, of "int r"] pos_mod_bound [OF pos, of "int r"]
    by (simp_all add: k_def)
  have w1: "wrap64 (mx - mn) = mx - mn"
    using range by (intro wrap64_id) simp_all
  have w2: "wrap64 (mx - mn + 1) = mx - mn + 1"
    using range by (intro wrap64_id) simp_all
  have w3: "wrap64 (mn + k) = mn + k"
    using range k by (intro wrap64_id) simp_all
  have "(mn + k) * 1000000 \<le> 9223372036854 * 1000000"
    using range k by (intro mult_right_mono) simp_all
  then have w4: "wrap64 ((mn + k) * 1000000) = (mn + k) * 1000000"
    using range k by (intro wrap64_id) simp_all
  show "RandomDelay cfg delayType r = Inr ((mn + int r mod (mx - mn + 1)) * Millisecond)"
    using range w3 w4
    by (simp add: RandomDelay_def band Intn_def w1 w2 Let_def Millisecond_def flip: k_def)
  show "mn \<le> mn + int r mod (mx - mn + 1)" using k by (simp add: k_def)
  show "mn + int r mod (mx - mn + 1) \<le> mx" using k by (simp add: k_def)
qed


lemma RandomDelay_reaches:
  assumes band: "delay_band cfg delayType = (mn, mx)"
    and range: "0 \<le> mn" "mn \<le> mx" "mx \<le> 9223372036854"
    and d: "mn \<le> d" "d \<le> mx"
  shows "RandomDelay cfg delayType (nat (d - mn)) = Inr (d * Millisecond)"
proof -
  have "int (nat (d - mn)) mod (mx - mn + 1) = d - mn"
    using d by (simp add: mod_pos_pos_trivial)
  with RandomDelay_in_band(1) [OF band range, of "nat (d - mn)"] show ?thesis by simp
qed

lemma RandomDelay_inverted_band:
  assumes band: "delay_band cfg delayType = (mn, mx)"
    and range: "mx < mn" "- (2 ^ 62) \<le> mx" "mn \<le> 2 ^ 62"
  shows "RandomDelay cfg delayType r = Inl InvalidArgumentToIntn"
proof -
  have w1: "wrap64 (mx - mn) = mx - mn"
    using range by (intro wrap64_id) simp_all
  have w2: "wrap64 (mx - mn + 1) = mx - mn + 1"
    using range by (intro wrap64_id) simp_all
  show ?thesis
    using range by (simp add: RandomDelay_def band Intn_def w1 w2)
qed

lemma delay_band_default:
  assumes "delayType \<noteq> ''action''" "delayType \<noteq> ''scroll''" "delayType \<noteq> ''typing''"
    "delayType \<noteq> ''think''"
  shows "delay_band cfg delayType = (1000, 3000)"
  using assms by (simp add: delay_band_def)

text \<open>
  C7, as stated, fails for a category name outside the four of the \<open>switch\<close>:
  \<open>RandomDelay "hover"\<close> takes the \<open>default\<close> branch and sleeps at least one second.
\<close>

theorem random_delay_default_band:
  "RandomDelay example_config ''hover'' 0 = Inr 1000000000"
  by (simp add: RandomDelay_def delay_band_def Intn_def wrap64_def Millisecond_def)

text \<open>
  C7, amended. The categories \<open>action\<close>, \<open>scroll\<close>, \<open>typing\<close> and \<open>think\<close> take
  their band from the configuration. For a band \<open>0 \<le> min \<le> max\<close> (with \<open>max\<close>
  milliseconds below the range of a \<open>time.Duration\<close>) \<open>RandomDelay\<close> sleeps \<open>min\<close>
  plus the number \<open>rand.Intn (max - min + 1)\<close> returns, in milliseconds: a duration in
  the closed band, and each duration of the band is slept for some state of the
  generator. A band left at \<open>(0, 0)\<close> sleeps for no time; a band with \<open>max < min\<close>
  makes \<open>rand.Intn\<close> panic. Every other category name is not a no-op: it sleeps
  within the built-in band of 1000 to 3000 milliseconds.
\<close>

theorem random_delay_band:
  "(delay_band cfg ''action'' = (Min_ms (ActionDelay cfg), Max_ms (ActionDelay cfg)) \<and>
    delay_band cfg ''scroll'' = (Min_ms (ScrollDelay cfg), Max_ms (ScrollDelay cfg)) \<and>
    delay_band cfg ''typing'' = (Min_ms (TypingDelay cfg), Max_ms (TypingDelay cfg)) \<and>
    delay_band cfg ''think'' = (Min_ms (ThinkTime cfg), Max_ms (ThinkTime cfg))) \<and>
   (delay_band cfg delayType = (mn, mx) \<and> 0 \<le> mn \<and> mn \<le> mx \<and> mx \<le> 9223372036854 \<longrightarrow>
      RandomDelay cfg delayType r = Inr ((mn + int r mod (mx - mn + 1)) * Millisecond) \<and>
      mn \<le> mn + int r mod (mx - mn + 1) \<and> mn + int r mod (mx - mn + 1) \<le> mx \<and>
      (\<forall>d. mn \<le> d \<and> d \<le> mx \<longrightarrow>
         RandomDelay cfg delayType (nat (d - mn)) = Inr (d * Millisecond))) \<and>
   (delay_band cfg delayType = (0, 0) \<longrightarrow> RandomDelay cfg delayType r = Inr 0) \<and>
   (delay_band cfg delayType = (mn, mx) \<and> mx < mn \<and> - (2 ^ 62) \<le> mx \<and> mn \<le> 2 ^ 62 \<longrightarrow>
      RandomDelay cfg delayType r = Inl InvalidArgumentToIntn) \<and>
   (delayType \<noteq> ''action'' \<and> delayType \<noteq> ''scroll'' \<and> delayType \<noteq> ''typing'' \<and>
    delayType \<noteq> ''think'' \<longrightarrow>
      RandomDelay cfg delayType r = Inr ((1000 + int r mod 2001) * Millisecond) \<and>
      1000 \<le> 1000 + int r mod 2001 \<and> 1000 + int r mod 2001 \<le> 3000)"
proof -
  have p1: "delay_band cfg ''action'' = (Min_ms (ActionDelay cfg), Max_ms (ActionDelay cfg)) \<and>
    delay_band cfg ''scroll'' = (Min_ms (ScrollDelay cfg), Max_ms (ScrollDelay cfg)) \<and>
    delay_band cfg ''typing'' = (Min_ms (TypingDelay cfg), Max_ms (TypingDelay cfg)) \<and>
    delay_band cfg ''think'' = (Min_ms (ThinkTime cfg), Max_ms (ThinkTime cfg))"
    by (simp add: delay_band_def)
  have p2: "RandomDelay cfg delayType r = Inr ((mn + int r mod (mx - mn + 1)) * Millisecond) \<and>
      mn \<le> mn + int r mod (mx - mn + 1) \<and> mn + int r mod (mx - mn + 1) \<le> mx \<and>
      (\<forall>d. mn \<le> d \<and> d \<le> mx \<longrightarrow>
         RandomDelay cfg delayType (nat (d - mn)) = Inr (d * Millisecond))"
    if "delay_band cfg delayType = (mn, mx) \<and> 0 \<le> mn \<and> mn \<le> mx \<and> mx \<le> 9223372036854"
    using that RandomDelay_in_band [of cfg delayType mn mx r]
      RandomDelay_reaches [of cfg delayType mn mx]
    by simp
  have p3: "RandomDelay cfg delayType r = Inr 0" if "delay_band cfg delayType = (0, 0)"
    using RandomDelay_in_band(1) [OF that, of r] by simp
  have p4: "RandomDelay cfg delayType r = Inl InvalidArgumentToIntn"
    if "delay_band cfg delayType = (mn, mx) \<and> mx < mn \<and> - (2 ^ 62) \<le> mx \<and> mn \<le> 2 ^ 62"
    using that RandomDelay_inverted_band [of cfg delayType mn mx r] by simp
  have p5: "RandomDelay cfg delayType r = Inr ((1000 + int r mod 2001) * Millisecond) \<and>
      1000 \<le> 1000 + int r mod 2001 \<and> 1000 + int r mod 2001 \<le> 3000"
    if "delayType \<noteq> ''action'' \<and> delayType \<noteq> ''scroll'' \<and> delayType \<noteq> ''typing'' \<and>
        delayType \<noteq> ''think''"
    using that RandomDelay_in_band [of cfg delayType 1000 3000 r]
      delay_band_default [of delayType cfg]
    by simp
  from p1 p2 p3 p4 p5 show ?thesis by blast
qed


theorem random_delay_band_witness:
  "delay_band example_config ''action'' = (2000, 5000) \<and>
   RandomDelay example_config ''action'' 7 = Inr 2007000000 \<and>
   RandomDelay example_config ''action'' 3000 = Inr 5000000000 \<and>
   delay_band example_config ''think'' = (0, 0) \<and>
   RandomDelay example_config ''think'' 7 = Inr 0 \<and>
   delay_band (example_config\<lparr>ScrollDelay := \<lparr>Min_ms = 3000, Max_ms = 1000\<rparr>\<rparr>) ''scroll''
     = (3000, 1000) \<and>
   RandomDelay (example_config\<lparr>ScrollDelay := \<lparr>Min_ms = 3000, Max_ms = 1000\<rparr>\<rparr>) ''scroll'' 7
     = Inl InvalidArgumentToIntn \<and>
   RandomDelay example_config ''hover'' 7 = Inr 1007000000"
proof -
  note t = random_delay_band
  have b1: "delay_band example_config ''action'' = (2000, 5000)"
    using t [where cfg = example_config, THEN conjunct1, THEN conjunct1]
    by (simp add: example_config_def)
  have b2: "delay_band example_config ''think'' = (0, 0)"
    using t [where cfg = example_config, THEN conjunct1, THEN conjunct2, THEN conjunct2,
             THEN conjunct2]
    by (simp add: example_config_def)
  have b3: "delay_band (example_config\<lparr>ScrollDelay := \<lparr>Min_ms = 3000, Max_ms = 1000\<rparr>\<rparr>)
              ''scroll'' = (3000, 1000)"
    by (simp add: delay_band_def)
  have h1: "delay_band example_config ''action'' = (2000, 5000) \<and> (0::int) \<le> 2000 \<and>
            (2000::int) \<le> 5000 \<and> (5000::int) \<le> 9223372036854"
    using b1 by simp
  have c1: "RandomDelay example_config ''action'' 7
              = Inr ((2000 + int 7 mod (5000 - 2000 + 1)) * Millisecond) \<and>
      2000 \<le> 2000 + int 7 mod (5000 - 2000 + 1) \<and>
      2000 + int 7 mod (5000 - 2000 + 1) \<le> 5000 \<and>
      (\<forall>d. 2000 \<le> d \<and> d \<le> 5000 \<longrightarrow>
         RandomDelay example_config ''action'' (nat (d - 2000)) = Inr (d * Millisecond))"
    using t [where cfg = example_config and delayType = "''action''" and mn = 2000
               and mx = 5000 and r = 7,
             THEN conjunct2, THEN conjunct1, THEN mp, OF h1] .
  have c1a: "RandomDelay example_config ''action'' 7 = Inr 2007000000"
    using c1 [THEN conjunct1] by (simp add: Millisecond_def)
  have "RandomDelay example_config ''action'' (nat (5000 - 2000)) = Inr (5000 * Millisecond)"
    using c1 [THEN conjunct2, THEN conjunct2, THEN conjunct2, THEN spec, of 5000] by simp
  then have c1b: "RandomDelay example_config ''action'' 3000 = Inr 5000000000"
    by (simp add: Millisecond_def)
  have c2: "RandomDelay example_config ''think'' 7 = Inr 0"
    using t [where cfg = example_config and delayType = "''think''" and r = 7,
             THEN conjunct2, THEN conjunct2, THEN conjunct1, THEN mp, OF b2] .
  have h3: "delay_band (example_config\<lparr>ScrollDelay := \<lparr>Min_ms = 3000, Max_ms = 1000\<rparr>\<rparr>)
              ''scroll'' = (3000, 1000) \<and> (1000::int) < 3000 \<and> - (2 ^ 62) \<le> (1000::int) \<and>
            (3000::int) \<le> 2 ^ 62"
    using b3 by simp
  have c3: "RandomDelay (example_config\<lparr>ScrollDelay := \<lparr>Min_ms = 3000, Max_ms = 1000\<rparr>\<rparr>)
              ''scroll'' 7 = Inl InvalidArgumentToIntn"
    using t [where delayType = "''scroll''" and mn = 3000 and mx = 1000 and r = 7,
             THEN conjunct2, THEN conjunct2, THEN conjunct2, THEN conjunct1, THEN mp, OF h3] .
  have h4: "''hover'' \<noteq> ''action'' \<and> ''hover'' \<noteq> ''scroll'' \<and> ''hover'' \<noteq> ''typing'' \<and>
            ''hover'' \<noteq> ''think''"
    by simp
  have c4: "RandomDelay example_config ''hover'' 7 = Inr 1007000000"
    using t [where cfg = example_config and delayType = "''hover''" and r = 7,
             THEN conjunct2, THEN conjunct2, THEN conjunct2, THEN conjunct2, THEN mp, OF h4,
             THEN conjunct1]
    by (simp add: Millisecond_def)
  show ?thesis
    using b1 c1a c1b b2 c2 b3 c3 c4 by blast
qed

subsection \<open>Startup validation\<close>

lemma Validate_accepts_iff:
  "Validate c = None \<longleftrightarrow>
     0 < ViewportWidth c \<and> 0 < ViewportHeight c \<and> UserAgents c \<noteq> [] \<and>
     0 < PerDay (Connections c) \<and> DatabasePath c \<noteq> []"
  by (auto simp add: Validate_def)

lemma zero_hourly_cap_blocks:
  assumes "PerHour (Connections cfg) \<le> 0"
  shows "\<not> canSendConnection cfg q w"
proof -
  have "0 \<le> ConnectionsSent (GetHourlyStats q w)"
    by (simp add: GetHourlyStats_def Let_def)
  with assms show ?thesis by (simp add: canSendConnection_iff)
qed

text \<open>
  C8. \<open>Validate\<close> checks one of the six caps, the daily cap of connections. A
  configuration whose hourly connection cap is zero passes \<open>Validate\<close> and \<open>Load\<close>
  returns it; from then on the quota check for connections is false in every state of
  the store, whatever the count queries answer, so the cap is enforced as
  always-blocking at run time.
\<close>

theorem zero_hourly_cap_passes_validation:
  "Validate zero_hourly_config = None \<and>
   Load zero_hourly_input = Inr zero_hourly_config \<and>
   \<not> canSendConnection zero_hourly_config q w"
proof -
  have v: "Validate zero_hourly_config = None"
    by (simp add: Validate_accepts_iff zero_hourly_config_def example_config_def)
  have l: "Load zero_hourly_input = Inr zero_hourly_config"
    by (simp add: Load_def zero_hourly_input_def v Let_def)
  have b: "\<not> canSendConnection zero_hourly_config q w"
    by (rule zero_hourly_cap_blocks) (simp add: zero_hourly_config_def)
  from v l b show ?thesis by simp
qed

end
